theory Spec2Isabelle
  imports Main
begin

section \<open>The authenticated HTTP client of ReelsAI (frontend \<open>lib/axios\<close>)\<close>

text \<open>
  The module keeps two credentials in \<open>localStorage\<close>, attaches the access credential to
  every outgoing request (request interceptor) and reacts to rejected responses (response
  interceptor): a 401 starts one token refresh, further 401s wait on \<open>failedQueue\<close>.

  JavaScript runs each handler to completion, so a handler is a function from the module
  state to a result and the new state. The response handler is an \<open>async\<close> function with
  one \<open>await\<close>: the part before it is \<open>onRejected\<close>, the part after it is
  \<open>onRefreshSettled\<close>. Promise callbacks registered on queued entries run as microtasks
  right after the handler that settles them, before any other response is handled; they
  are part of the same step and read the storage that handler leaves behind.
\<close>

subsection \<open>Token store (source lines 13-37)\<close>

type_synonym storage = "string \<rightharpoonup> string"

definition getItem :: "string \<Rightarrow> storage \<Rightarrow> string option" where
  "getItem k ls = ls k"

definition setItem :: "string \<Rightarrow> string \<Rightarrow> storage \<Rightarrow> storage" where
  "setItem k v ls = ls(k \<mapsto> v)"

definition removeItem :: "string \<Rightarrow> storage \<Rightarrow> storage" where
  "removeItem k ls = ls(k := None)"

text \<open>JavaScript truthiness of a \<open>string | null\<close>: \<open>null\<close> and the empty string are falsy.\<close>

fun truthy :: "string option \<Rightarrow> bool" where
  "truthy None = False"
| "truthy (Some s) = (s \<noteq> [])"

definition setAccessToken :: "string option \<Rightarrow> storage \<Rightarrow> storage" where
  "setAccessToken token ls =
     (case token of
        Some t \<Rightarrow> (if truthy token then setItem ''accessToken'' t ls
                   else removeItem ''accessToken'' ls)
      | None \<Rightarrow> removeItem ''accessToken'' ls)"

definition getAccessToken :: "storage \<Rightarrow> string option" where
  "getAccessToken ls = getItem ''accessToken'' ls"

definition getRefreshToken :: "storage \<Rightarrow> string option" where
  "getRefreshToken ls = getItem ''refreshToken'' ls"

definition setRefreshToken :: "string option \<Rightarrow> storage \<Rightarrow> storage" where
  "setRefreshToken token ls =
     (case token of
        Some t \<Rightarrow> (if truthy token then setItem ''refreshToken'' t ls
                   else removeItem ''refreshToken'' ls)
      | None \<Rightarrow> removeItem ''refreshToken'' ls)"

definition clearTokens :: "storage \<Rightarrow> storage" where
  "clearTokens ls = removeItem ''refreshToken'' (removeItem ''accessToken'' ls)"

subsection \<open>Requests and errors\<close>

text \<open>
  \<open>InternalAxiosRequestConfig & { _retry?: boolean }\<close>. \<open>retry\<close> is the \<open>_retry\<close> marker
  (\<open>undefined\<close> reads as false); \<open>headers\<close> is optional because the source tests
  \<open>config.headers\<close> before writing to it; \<open>http_method\<close> and \<open>body\<close> stand for the
  fields the module never touches.
\<close>

record request_config =
  url :: "string option"
  headers :: "(string \<rightharpoonup> string) option"
  retry :: bool
  http_method :: string
  body :: string

text \<open>
  \<open>AxiosError\<close>: \<open>config\<close> is \<open>error.config\<close>, \<open>status\<close> is \<open>error.response?.status\<close>
  (\<open>None\<close> when there is no response, as for a network error).
\<close>

record axios_error =
  config :: "request_config option"
  status :: "nat option"
  message :: string

text \<open>What a promise can be rejected with.\<close>

datatype failure =
    AxiosError axios_error
  | Error string
  | TypeError string

text \<open>The \<open>Authorization\<close> header of a request, if it has one.\<close>

definition authorization :: "request_config \<Rightarrow> string option" where
  "authorization c = (case headers c of None \<Rightarrow> None | Some h \<Rightarrow> h ''Authorization'')"

text \<open>\<open>if (c.headers) c.headers.Authorization = v\<close>\<close>

definition setAuthorization :: "string \<Rightarrow> request_config \<Rightarrow> request_config" where
  "setAuthorization v c =
     (case headers c of
        None \<Rightarrow> c
      | Some h \<Rightarrow> c\<lparr>headers := Some (h(''Authorization'' \<mapsto> v))\<rparr>)"

text \<open>The template literal \<open>`Bearer ${x}`\<close> for \<open>x : string | null\<close>.\<close>

definition bearer :: "string option \<Rightarrow> string" where
  "bearer x = ''Bearer '' @ (case x of None \<Rightarrow> ''null'' | Some t \<Rightarrow> t)"

subsection \<open>Request interceptor (source lines 39-49)\<close>

definition requestInterceptor :: "storage \<Rightarrow> request_config \<Rightarrow> request_config" where
  "requestInterceptor ls cfg =
     (let token = getAccessToken ls in
      if truthy token \<and> headers cfg \<noteq> None
      then setAuthorization (bearer token) cfg
      else cfg)"

subsection \<open>Module state of the response interceptor (source lines 51-56)\<close>

text \<open>
  An entry of \<open>failedQueue\<close> is the \<open>{resolve, reject}\<close> pair of the promise created for
  one waiting call; the only callbacks ever attached to that promise close over the
  call's \<open>originalRequest\<close>, so the entry is represented by that request.
  \<open>location_href\<close> is \<open>window.location.href\<close>.
\<close>

record client_state =
  localStorage :: storage
  isRefreshing :: bool
  failedQueue :: "request_config list"
  location_href :: string

text \<open>How one call's promise continues after a handler has run.\<close>

datatype outcome =
    Rejects failure
  | Enqueued
  | AwaitsRefresh request_config string
  | Retries request_config

text \<open>
  \<open>Rejects e\<close>: \<open>Promise.reject(e)\<close>, the caller sees \<open>e\<close>.
  \<open>Enqueued\<close>: the call waits on its entry of \<open>failedQueue\<close>.
  \<open>AwaitsRefresh c t\<close>: the handler posted \<open>{refresh: t}\<close> to the refresh endpoint and is
  suspended at the \<open>await\<close>, holding \<open>originalRequest = c\<close>.
  \<open>Retries c\<close>: \<open>axiosInstance(originalRequest)\<close>; \<open>c\<close> is the request as it leaves the
  request interceptor.
\<close>

datatype settlement =
    PromResolve request_config
  | PromReject request_config failure

subsection \<open>\<open>processQueue\<close> (source lines 58-67)\<close>

definition processQueue :: "failure option \<Rightarrow> client_state \<Rightarrow> settlement list \<times> client_state" where
  "processQueue error st =
     (map (\<lambda>prom. case error of Some e \<Rightarrow> PromReject prom e | None \<Rightarrow> PromResolve prom)
          (failedQueue st),
      st\<lparr>failedQueue := []\<rparr>)"

subsection \<open>Exempt endpoints (source lines 77-79)\<close>

fun startsWith :: "string \<Rightarrow> string \<Rightarrow> bool" where
  "startsWith s [] = True"
| "startsWith [] (p # ps) = False"
| "startsWith (c # cs) (p # ps) = (c = p \<and> startsWith cs ps)"

text \<open>\<open>String.prototype.includes\<close>\<close>

fun str_includes :: "string \<Rightarrow> string \<Rightarrow> bool" where
  "str_includes [] sub = (sub = [])"
| "str_includes (c # cs) sub = (startsWith (c # cs) sub \<or> str_includes cs sub)"

text \<open>\<open>url?.includes(..)\<close> is \<open>undefined\<close>, hence falsy, when the request has no url.\<close>

definition isAuthEndpoint :: "request_config \<Rightarrow> bool" where
  "isAuthEndpoint originalRequest =
     (case url originalRequest of
        None \<Rightarrow> False
      | Some u \<Rightarrow> str_includes u ''/auth/signin'' \<or>
                  str_includes u ''/auth/register'' \<or>
                  str_includes u ''/auth/token/refresh'')"

subsection \<open>Callbacks of a queued entry (source lines 91-97)\<close>

text \<open>
  \<open>axiosInstance(c)\<close> sends \<open>c\<close> through the request interceptor.
\<close>

definition axiosInstance :: "storage \<Rightarrow> request_config \<Rightarrow> outcome" where
  "axiosInstance ls c = Retries (requestInterceptor ls c)"

fun queuedContinuation :: "storage \<Rightarrow> settlement \<Rightarrow> request_config \<times> outcome" where
  "queuedContinuation ls (PromResolve originalRequest) =
     (originalRequest,
      axiosInstance ls (setAuthorization (bearer (getAccessToken ls)) originalRequest))"
| "queuedContinuation ls (PromReject originalRequest err) =
     (originalRequest, Rejects err)"

subsection \<open>Response interceptor (source lines 69-146)\<close>

text \<open>The success handler \<open>(response) => response\<close>.\<close>

definition onFulfilled :: "'r \<Rightarrow> 'r" where
  "onFulfilled response = response"

text \<open>
  The error handler up to its \<open>await\<close>. The result is the outcome of the failed call, the
  outcomes of the queued calls settled by this run (in the order of \<open>processQueue\<close>), and
  the new state. Assignments to \<open>originalRequest\<close> mutate \<open>error.config\<close>, so the error
  rejected after \<open>_retry = true\<close> carries the marked request. Reading \<open>_retry\<close> of a
  missing \<open>error.config\<close> throws inside the \<open>async\<close> function, which rejects its promise.
\<close>

definition onRejected ::
  "axios_error \<Rightarrow> client_state \<Rightarrow> outcome \<times> (request_config \<times> outcome) list \<times> client_state" where
  "onRejected error st =
     (if status error = Some 401 then
        (case config error of
           None \<Rightarrow> (Rejects (TypeError ''Cannot read properties of undefined''), [], st)
         | Some originalRequest \<Rightarrow>
             if \<not> retry originalRequest then
               if isAuthEndpoint originalRequest then (Rejects (AxiosError error), [], st)
               else if isRefreshing st then
                 (Enqueued, [], st\<lparr>failedQueue := failedQueue st @ [originalRequest]\<rparr>)
               else
                 (let originalRequest' = originalRequest\<lparr>retry := True\<rparr>;
                      error' = error\<lparr>config := Some originalRequest'\<rparr>;
                      st1 = st\<lparr>isRefreshing := True\<rparr>;
                      refreshToken = getRefreshToken (localStorage st1)
                  in if \<not> truthy refreshToken then
                       (let st2 = st1\<lparr>localStorage := clearTokens (localStorage st1)\<rparr>;
                            (settled, st3) =
                               processQueue (Some (Error ''No refresh token available'')) st2;
                            st4 = st3\<lparr>isRefreshing := False\<rparr>;
                            st5 = st4\<lparr>location_href := ''/auth/sign-in''\<rparr>
                        in (Rejects (AxiosError error'),
                            map (queuedContinuation (localStorage st5)) settled, st5))
                     else (AwaitsRefresh originalRequest' (the refreshToken), [], st1))
             else (Rejects (AxiosError error), [], st))
      else (Rejects (AxiosError error), [], st))"

text \<open>
  The refresh call is made with the global \<open>axios\<close>, not \<open>axiosInstance\<close>, so no
  interceptor of this module sees it. It resolves with \<open>response.data.access\<close>, a string
  by the API contract, or rejects.
\<close>

datatype refresh_result =
    RefreshOk string
  | RefreshFailed failure

text \<open>The error handler from its \<open>await\<close> on (source lines 121-141).\<close>

definition onRefreshSettled ::
  "request_config \<Rightarrow> refresh_result \<Rightarrow> client_state \<Rightarrow>
     outcome \<times> (request_config \<times> outcome) list \<times> client_state" where
  "onRefreshSettled originalRequest r st =
     (case r of
        RefreshOk newAccessToken \<Rightarrow>
          (let st1 = st\<lparr>localStorage := setAccessToken (Some newAccessToken) (localStorage st)\<rparr>;
               originalRequest' = setAuthorization (bearer (Some newAccessToken)) originalRequest;
               (settled, st2) = processQueue None st1;
               st3 = st2\<lparr>isRefreshing := False\<rparr>
           in (axiosInstance (localStorage st3) originalRequest',
               map (queuedContinuation (localStorage st3)) settled, st3))
      | RefreshFailed refreshError \<Rightarrow>
          (let (settled, st1) = processQueue (Some refreshError) st;
               st2 = st1\<lparr>localStorage := clearTokens (localStorage st1)\<rparr>;
               st3 = st2\<lparr>isRefreshing := False\<rparr>;
               st4 = st3\<lparr>location_href := ''/auth/sign-in''\<rparr>
           in (Rejects refreshError,
               map (queuedContinuation (localStorage st4)) settled, st4)))"

subsection \<open>Runs of the client\<close>

text \<open>
  The events the module reacts to: a response of a call made through \<open>axiosInstance\<close> is
  rejected, or the refresh call of the handler suspended with \<open>originalRequest\<close> settles.
\<close>

datatype event =
    ResponseError axios_error
  | RefreshSettled request_config refresh_result

fun step :: "event \<Rightarrow> client_state \<Rightarrow> outcome \<times> (request_config \<times> outcome) list \<times> client_state" where
  "step (ResponseError error) st = onRejected error st"
| "step (RefreshSettled originalRequest r) st = onRefreshSettled originalRequest r st"

fun run ::
  "event list \<Rightarrow> client_state \<Rightarrow> (outcome \<times> (request_config \<times> outcome) list) list \<times> client_state" where
  "run [] st = ([], st)"
| "run (ev # evs) st =
     (case step ev st of (out, settled, st1) \<Rightarrow>
        (case run evs st1 of (rest, st2) \<Rightarrow> ((out, settled) # rest, st2)))"

text \<open>The refresh calls issued during a run.\<close>

fun isRefreshCall :: "outcome \<Rightarrow> bool" where
  "isRefreshCall (AwaitsRefresh c t) = True"
| "isRefreshCall other = False"

definition refreshCalls :: "(outcome \<times> (request_config \<times> outcome) list) list \<Rightarrow> nat" where
  "refreshCalls outs = length (filter isRefreshCall (map fst outs))"

text \<open>
  A 401 that the handler treats as an expired access credential: the request is present,
  not yet marked \<open>_retry\<close> and not an exempt endpoint (the conditions of source lines 75
  and 81).
\<close>

definition authFailure :: "axios_error \<Rightarrow> bool" where
  "authFailure e =
     (status e = Some 401 \<and>
      (case config e of None \<Rightarrow> False | Some c \<Rightarrow> \<not> retry c \<and> \<not> isAuthEndpoint c))"

subsection \<open>Concrete requests and states used in the examples\<close>

definition emptyStorage :: storage where
  "emptyStorage = Map.empty"

definition tokens :: "string \<Rightarrow> string \<Rightarrow> storage" where
  "tokens a r = emptyStorage(''accessToken'' \<mapsto> a, ''refreshToken'' \<mapsto> r)"

definition session :: "storage \<Rightarrow> client_state" where
  "session ls =
     \<lparr>localStorage = ls, isRefreshing = False, failedQueue = [], location_href = ''/''\<rparr>"

definition jsonHeaders :: "string \<rightharpoonup> string" where
  "jsonHeaders = Map.empty(''Content-Type'' \<mapsto> ''application/json'')"

definition apiCall :: "string \<Rightarrow> request_config" where
  "apiCall u =
     \<lparr>url = Some u, headers = Some jsonHeaders, retry = False, http_method = ''get'', body = []\<rparr>"

definition unauthorized :: "request_config \<Rightarrow> axios_error" where
  "unauthorized c =
     \<lparr>config = Some c, status = Some 401, message = ''Request failed with status code 401''\<rparr>"

definition serverError :: "request_config \<Rightarrow> axios_error" where
  "serverError c =
     \<lparr>config = Some c, status = Some 500, message = ''Request failed with status code 500''\<rparr>"

definition networkError :: "request_config \<Rightarrow> axios_error" where
  "networkError c = \<lparr>config = Some c, status = None, message = ''Network Error''\<rparr>"

definition callA :: request_config where
  "callA = apiCall ''/newsfeed/feeds/''"

definition callB :: request_config where
  "callB = apiCall ''/newsfeed/items/''"

definition signinCall :: request_config where
  "signinCall = apiCall ''/auth/signin/''"

text \<open>\<open>callB\<close> as it is sent again once a refresh has stored \<open>tok2\<close>.\<close>

definition callB2 :: request_config where
  "callB2 = setAuthorization ''Bearer tok2'' callB"

text \<open>A refresh started by \<open>callA\<close> is in flight and \<open>callB\<close> waits for it.\<close>

definition refreshingState :: client_state where
  "refreshingState =
     \<lparr>localStorage = tokens ''tok1'' ''r1'', isRefreshing = True, failedQueue = [callB],
      location_href = ''/''\<rparr>"

lemmas scenario_defs =
  emptyStorage_def tokens_def session_def jsonHeaders_def apiCall_def unauthorized_def
  serverError_def networkError_def callA_def callB_def signinCall_def callB2_def
  refreshingState_def

lemmas store_defs =
  getItem_def setItem_def removeItem_def getAccessToken_def getRefreshToken_def
  setAccessToken_def setRefreshToken_def clearTokens_def

lemmas client_defs =
  onRejected_def onRefreshSettled_def processQueue_def axiosInstance_def
  requestInterceptor_def setAuthorization_def authorization_def bearer_def isAuthEndpoint_def
  authFailure_def Let_def

section \<open>Properties\<close>

subsection \<open>Auxiliary facts\<close>

lemma startsWith_iff: "startsWith s p \<longleftrightarrow> (\<exists>post. s = p @ post)"
  by (induction s p rule: startsWith.induct) auto

lemma str_includes_iff: "str_includes s sub \<longleftrightarrow> (\<exists>pre post. s = pre @ sub @ post)"
proof (induction s)
  case Nil
  then show ?case by auto
next
  case (Cons c cs)
  show ?case
  proof
    assume "str_includes (c # cs) sub"
    then consider "startsWith (c # cs) sub" | "str_includes cs sub" by auto
    then show "\<exists>pre post. c # cs = pre @ sub @ post"
    proof cases
      case 1
      then obtain post where "c # cs = sub @ post" by (auto simp: startsWith_iff)
      then have "c # cs = [] @ sub @ post" by simp
      then show ?thesis by blast
    next
      case 2
      then obtain pre post where "cs = pre @ sub @ post" using Cons.IH by blast
      then have "c # cs = (c # pre) @ sub @ post" by simp
      then show ?thesis by blast
    qed
  next
    assume "\<exists>pre post. c # cs = pre @ sub @ post"
    then obtain pre post where eq: "c # cs = pre @ sub @ post" by blast
    show "str_includes (c # cs) sub"
    proof (cases pre)
      case Nil
      with eq have "startsWith (c # cs) sub" by (auto simp: startsWith_iff)
      then show ?thesis by simp
    next
      case (Cons a pre')
      with eq have "cs = pre' @ sub @ post" by simp
      then have "str_includes cs sub" using Cons.IH by blast
      then show ?thesis by simp
    qed
  qed
qed

lemma clearTokens_reads:
  "getAccessToken (clearTokens ls) = None" "getRefreshToken (clearTokens ls) = None"
  by (simp_all add: store_defs)

lemma authFailureE:
  assumes "authFailure e"
  obtains c where "status e = Some 401" "config e = Some c" "\<not> retry c" "\<not> isAuthEndpoint c"
  using assms by (auto simp: authFailure_def split: option.splits)

text \<open>The four ways a 401 with a request attached is handled.\<close>

lemma onRejected_enqueue:
  assumes "status error = Some 401" "config error = Some c" "\<not> retry c" "\<not> isAuthEndpoint c"
    and "isRefreshing st"
  shows "onRejected error st = (Enqueued, [], st\<lparr>failedQueue := failedQueue st @ [c]\<rparr>)"
  using assms by (simp add: onRejected_def)

lemma onRejected_start:
  assumes "status error = Some 401" "config error = Some c" "\<not> retry c" "\<not> isAuthEndpoint c"
    and "\<not> isRefreshing st" "getRefreshToken (localStorage st) = Some rt" "rt \<noteq> []"
  shows "onRejected error st =
           (AwaitsRefresh (c\<lparr>retry := True\<rparr>) rt, [], st\<lparr>isRefreshing := True\<rparr>)"
  using assms by (simp add: onRejected_def Let_def)

lemma onRejected_no_token:
  assumes "status error = Some 401" "config error = Some c" "\<not> retry c" "\<not> isAuthEndpoint c"
    and "\<not> isRefreshing st" "\<not> truthy (getRefreshToken (localStorage st))"
  shows "onRejected error st =
           (Rejects (AxiosError (error\<lparr>config := Some (c\<lparr>retry := True\<rparr>)\<rparr>)),
            map (\<lambda>q. (q, Rejects (Error ''No refresh token available''))) (failedQueue st),
            st\<lparr>localStorage := clearTokens (localStorage st), isRefreshing := False,
               failedQueue := [], location_href := ''/auth/sign-in''\<rparr>)"
  using assms by (simp add: onRejected_def Let_def processQueue_def)

lemma onRejected_retried:
  assumes "status error = Some 401" "config error = Some c" "retry c"
  shows "onRejected error st = (Rejects (AxiosError error), [], st)"
  using assms by (simp add: onRejected_def)

text \<open>The two ways the handler resumes after its \<open>await\<close>.\<close>

lemma onRefreshSettled_failed:
  "onRefreshSettled orig (RefreshFailed e) st =
     (Rejects e, map (\<lambda>q. (q, Rejects e)) (failedQueue st),
      st\<lparr>localStorage := clearTokens (localStorage st), isRefreshing := False,
         failedQueue := [], location_href := ''/auth/sign-in''\<rparr>)"
  by (simp add: onRefreshSettled_def Let_def processQueue_def)

lemma onRefreshSettled_ok:
  "onRefreshSettled orig (RefreshOk a) st =
     (let ls' = setAccessToken (Some a) (localStorage st) in
      (Retries (requestInterceptor ls' (setAuthorization (''Bearer '' @ a) orig)),
       map (\<lambda>q. (q, Retries (requestInterceptor ls'
                                (setAuthorization (bearer (getAccessToken ls')) q))))
           (failedQueue st),
       st\<lparr>localStorage := ls', isRefreshing := False, failedQueue := []\<rparr>))"
  by (simp add: onRefreshSettled_def Let_def processQueue_def axiosInstance_def bearer_def)

text \<open>While a refresh is in flight, a run of expired-credential 401s only extends the queue.\<close>

lemma run_enqueue_all:
  assumes "isRefreshing st" "\<forall>e \<in> set es. authFailure e"
  shows "run (map ResponseError es) st =
           (map (\<lambda>_. (Enqueued, [])) es,
            st\<lparr>failedQueue := failedQueue st @ map (the \<circ> config) es\<rparr>)"
  using assms
proof (induction es arbitrary: st)
  case Nil
  then show ?case by simp
next
  case (Cons e es)
  from Cons.prems(2) have "authFailure e" by simp
  then obtain c where c: "status e = Some 401" "config e = Some c" "\<not> retry c"
    "\<not> isAuthEndpoint c"
    by (rule authFailureE)
  let ?st1 = "st\<lparr>failedQueue := failedQueue st @ [c]\<rparr>"
  have s: "onRejected e st = (Enqueued, [], ?st1)"
    using onRejected_enqueue[OF c Cons.prems(1)] .
  have "isRefreshing ?st1" using Cons.prems(1) by simp
  moreover have "\<forall>e \<in> set es. authFailure e" using Cons.prems(2) by simp
  ultimately have "run (map ResponseError es) ?st1 =
      (map (\<lambda>_. (Enqueued, [])) es,
       ?st1\<lparr>failedQueue := failedQueue ?st1 @ map (the \<circ> config) es\<rparr>)"
    by (rule Cons.IH)
  then show ?case using s c(2) by simp
qed

subsection \<open>Token store\<close>

text \<open>
  C10, as the code has it. Writing a non-empty string \<open>t\<close> with \<open>setAccessToken\<close> and
  reading the access credential back gives \<open>t\<close>; writing \<open>null\<close> or the empty string
  (both falsy in \<open>if (token)\<close>) removes the credential, so the read gives absent. The same
  holds for \<open>setRefreshToken\<close> and \<open>getRefreshToken\<close>, and writing or clearing one
  credential leaves the stored value of the other unchanged.
\<close>

theorem token_store_roundtrip:
  "(t \<noteq> [] \<longrightarrow> getAccessToken (setAccessToken (Some t) ls) = Some t
             \<and> getRefreshToken (setRefreshToken (Some t) ls) = Some t)
   \<and> getAccessToken (setAccessToken (Some []) ls) = None
   \<and> getRefreshToken (setRefreshToken (Some []) ls) = None
   \<and> getAccessToken (setAccessToken None ls) = None
   \<and> getRefreshToken (setRefreshToken None ls) = None
   \<and> getRefreshToken (setAccessToken x ls) = getRefreshToken ls
   \<and> getAccessToken (setRefreshToken x ls) = getAccessToken ls"
  by (simp add: store_defs split: option.splits)

theorem token_store_roundtrip_witness:
  "''tok1'' \<noteq> []
   \<and> getAccessToken (setAccessToken (Some ''tok1'') emptyStorage) = Some ''tok1''
   \<and> getRefreshToken (setRefreshToken (Some ''tok1'') emptyStorage) = Some ''tok1''
   \<and> getRefreshToken (setAccessToken None (tokens ''tok1'' ''r1'')) = Some ''r1''"
  using token_store_roundtrip [where t = "''tok1''" and ls = emptyStorage]
    token_store_roundtrip [where ls = "tokens ''tok1'' ''r1''" and x = None]
  by (simp add: store_defs scenario_defs)

text \<open>
  C10 as stated fails at the empty string: \<open>setAccessToken("")\<close> removes the credential, and
  the read that follows gives absent, not the empty string.
\<close>

theorem empty_token_not_stored:
  "getAccessToken (setAccessToken (Some []) emptyStorage) \<noteq> Some []"
  by (simp add: store_defs scenario_defs)

text \<open>
  C4. Clearing is one step of the store: after a rejected refresh call, and after a
  refresh attempted with no refresh credential in the store, reading either credential
  gives absent; so does any read after \<open>clearTokens\<close>. The states a reader can see are
  those a handler leaves behind, and none of these has one credential cleared and the
  other still readable.
\<close>

theorem credentials_cleared_together:
  "(case onRefreshSettled orig (RefreshFailed e) st of (out, settled, st') \<Rightarrow>
      getAccessToken (localStorage st') = None \<and> getRefreshToken (localStorage st') = None)
   \<and> (authFailure error \<and> \<not> isRefreshing st \<and> \<not> truthy (getRefreshToken (localStorage st)) \<longrightarrow>
       (case onRejected error st of (out, settled, st') \<Rightarrow>
          getAccessToken (localStorage st') = None \<and> getRefreshToken (localStorage st') = None))
   \<and> getAccessToken (clearTokens ls) = None \<and> getRefreshToken (clearTokens ls) = None"
proof -
  have "case onRejected error st of (out, settled, st') \<Rightarrow>
          getAccessToken (localStorage st') = None \<and> getRefreshToken (localStorage st') = None"
    if af: "authFailure error" and idle: "\<not> isRefreshing st"
      and none: "\<not> truthy (getRefreshToken (localStorage st))"
  proof -
    from af obtain c where c: "status error = Some 401" "config error = Some c" "\<not> retry c"
      "\<not> isAuthEndpoint c"
      by (rule authFailureE)
    show ?thesis
      by (simp add: onRejected_no_token[OF c idle none] clearTokens_reads)
  qed
  then show ?thesis
    by (simp add: onRefreshSettled_failed clearTokens_reads)
qed

theorem credentials_cleared_together_witness:
  "authFailure (unauthorized callA)
   \<and> \<not> isRefreshing (session (setAccessToken (Some ''tok1'') emptyStorage))
   \<and> \<not> truthy (getRefreshToken (localStorage (session (setAccessToken (Some ''tok1'') emptyStorage))))
   \<and> getAccessToken (localStorage (session (setAccessToken (Some ''tok1'') emptyStorage)))
       = Some ''tok1''
   \<and> getAccessToken (localStorage (snd (snd (onRejected (unauthorized callA)
         (session (setAccessToken (Some ''tok1'') emptyStorage)))))) = None
   \<and> getRefreshToken (localStorage (snd (snd (onRejected (unauthorized callA)
         (session (setAccessToken (Some ''tok1'') emptyStorage)))))) = None
   \<and> getAccessToken (localStorage (snd (snd (onRefreshSettled (callA\<lparr>retry := True\<rparr>)
         (RefreshFailed (Error ''Network Error'')) refreshingState)))) = None
   \<and> getRefreshToken (localStorage (snd (snd (onRefreshSettled (callA\<lparr>retry := True\<rparr>)
         (RefreshFailed (Error ''Network Error'')) refreshingState)))) = None"
  using credentials_cleared_together
          [where orig = "callA\<lparr>retry := True\<rparr>" and e = "Error ''Network Error''"
             and st = refreshingState]
        credentials_cleared_together
          [where error = "unauthorized callA"
             and st = "session (setAccessToken (Some ''tok1'') emptyStorage)"]
  by (simp add: store_defs scenario_defs client_defs split: prod.splits)

subsection \<open>Request interceptor\<close>

text \<open>
  C7. When an access credential is stored (a non-empty string: the store never writes an
  empty one) the interceptor sets the \<open>Authorization\<close> header of the request to
  \<open>Bearer\<close>, a space and the credential, on every request that has a headers object, as
  \<open>InternalAxiosRequestConfig\<close> requires. When no credential is stored the request is
  returned unchanged. In every case the url, the retry marker, the method, the body and
  every header other than \<open>Authorization\<close> are what they were.
\<close>

theorem request_interceptor_frame:
  "(getAccessToken ls = Some t \<and> t \<noteq> [] \<and> headers cfg = Some h \<longrightarrow>
      requestInterceptor ls cfg = cfg\<lparr>headers := Some (h(''Authorization'' \<mapsto> ''Bearer '' @ t))\<rparr>)
   \<and> (\<not> truthy (getAccessToken ls) \<longrightarrow> requestInterceptor ls cfg = cfg)
   \<and> url (requestInterceptor ls cfg) = url cfg
   \<and> retry (requestInterceptor ls cfg) = retry cfg
   \<and> http_method (requestInterceptor ls cfg) = http_method cfg
   \<and> body (requestInterceptor ls cfg) = body cfg
   \<and> (headers (requestInterceptor ls cfg) = None) = (headers cfg = None)
   \<and> (\<forall>h0 h1 k. headers cfg = Some h0 \<and> headers (requestInterceptor ls cfg) = Some h1
         \<and> k \<noteq> ''Authorization'' \<longrightarrow> h1 k = h0 k)"
  by (auto simp: requestInterceptor_def setAuthorization_def bearer_def Let_def
      split: option.splits)

theorem request_interceptor_frame_witness:
  "getAccessToken (tokens ''tok1'' ''r1'') = Some ''tok1'' \<and> ''tok1'' \<noteq> []
   \<and> headers callA = Some jsonHeaders
   \<and> requestInterceptor (tokens ''tok1'' ''r1'') callA
       = callA\<lparr>headers := Some (jsonHeaders(''Authorization'' \<mapsto> ''Bearer tok1''))\<rparr>
   \<and> \<not> truthy (getAccessToken emptyStorage)
   \<and> requestInterceptor emptyStorage callA = callA
   \<and> ''Content-Type'' \<noteq> ''Authorization''
   \<and> the (headers (requestInterceptor (tokens ''tok1'' ''r1'') callA)) ''Content-Type''
       = Some ''application/json''"
  using request_interceptor_frame
          [where ls = "tokens ''tok1'' ''r1''" and t = "''tok1''" and cfg = callA
             and h = jsonHeaders]
        request_interceptor_frame [where ls = emptyStorage and cfg = callA]
  by (simp add: store_defs scenario_defs client_defs)

subsection \<open>Failures that are passed on\<close>

text \<open>
  C3. A call whose url contains \<open>/auth/signin\<close>, \<open>/auth/register\<close> or
  \<open>/auth/token/refresh\<close> as a substring and that fails with status 401 is rejected with
  its own error: no refresh call is made, nothing is queued, and the state (refreshing
  flag, queue, stored credentials, browser location) is the one before.
\<close>

theorem exempt_endpoint_bypasses_refresh:
  assumes "config error = Some c" and "url c = Some (pre @ p @ post)"
    and "p \<in> {''/auth/signin'', ''/auth/register'', ''/auth/token/refresh''}"
    and "status error = Some 401"
  shows "onRejected error st = (Rejects (AxiosError error), [], st)"
proof -
  have inc: "str_includes (pre @ p @ post) p"
    unfolding str_includes_iff by blast
  have "isAuthEndpoint c"
    using assms(3) inc by (auto simp: isAuthEndpoint_def assms(2))
  then show ?thesis using assms(1,4) by (simp add: onRejected_def)
qed

theorem exempt_endpoint_bypasses_refresh_witness:
  "config (unauthorized signinCall) = Some signinCall
   \<and> url signinCall = Some ([] @ ''/auth/signin'' @ ''/'')
   \<and> ''/auth/signin'' \<in> {''/auth/signin'', ''/auth/register'', ''/auth/token/refresh''}
   \<and> status (unauthorized signinCall) = Some 401
   \<and> onRejected (unauthorized signinCall) (session (tokens ''tok1'' ''r1''))
       = (Rejects (AxiosError (unauthorized signinCall)), [], session (tokens ''tok1'' ''r1''))"
proof -
  have h1: "config (unauthorized signinCall) = Some signinCall"
    by (simp add: unauthorized_def)
  have h2: "url signinCall = Some ([] @ ''/auth/signin'' @ ''/'')"
    by (simp add: signinCall_def apiCall_def)
  have h3: "''/auth/signin'' \<in> {''/auth/signin'', ''/auth/register'', ''/auth/token/refresh''}"
    by simp
  have h4: "status (unauthorized signinCall) = Some 401"
    by (simp add: unauthorized_def)
  show ?thesis
    using h1 h2 h3 h4
      exempt_endpoint_bypasses_refresh [OF h1 h2 h3 h4, of "session (tokens ''tok1'' ''r1'')"]
    by blast
qed

text \<open>
  C9. An error without a response (a network error) or with a status other than 401 is
  rejected to the caller as it came: no refresh call, nothing queued, and the state
  (credentials, flag, queue, browser location) unchanged. A successful response is
  returned as it is.
\<close>

theorem non_auth_failure_propagates:
  "(status error \<noteq> Some 401 \<longrightarrow> onRejected error st = (Rejects (AxiosError error), [], st))
   \<and> onFulfilled response = response"
  by (simp add: onRejected_def onFulfilled_def)

theorem non_auth_failure_propagates_witness:
  "status (serverError callA) \<noteq> Some 401
   \<and> onRejected (serverError callA) refreshingState
       = (Rejects (AxiosError (serverError callA)), [], refreshingState)
   \<and> status (networkError callA) \<noteq> Some 401
   \<and> onRejected (networkError callA) refreshingState
       = (Rejects (AxiosError (networkError callA)), [], refreshingState)
   \<and> onFulfilled ''ok'' = ''ok''"
  using non_auth_failure_propagates
          [where error = "serverError callA" and st = refreshingState and response = "''ok''"]
        non_auth_failure_propagates
          [where error = "networkError callA" and st = refreshingState and response = "''ok''"]
  by (simp add: serverError_def networkError_def)

subsection \<open>One refresh at a time\<close>

text \<open>
  C1, as the code has it. With a non-empty refresh credential stored and no refresh in
  flight, let N calls (N at least one, so in particular N at least two) each fail with a
  401 of a non-exempt request not yet retried, all before the refresh settles. Then
  exactly one refresh call is issued, by the first; each other call is appended to
  \<open>failedQueue\<close>, issues no refresh and settles no promise; the flag stays true and the
  store is untouched. The run that resumes when that refresh settles settles every queued
  call, in queue order, and leaves none waiting: on success each is sent again with the
  new credential, on failure each is rejected with the refresh error. In general:
  whenever \<open>isRefreshing\<close> is true, a 401 of a non-exempt request not yet retried pushes
  onto \<open>failedQueue\<close> and issues no refresh request.
\<close>

theorem single_refresh_in_flight:
  assumes idle: "\<not> isRefreshing st"
    and tok: "getRefreshToken (localStorage st) = Some rt" "rt \<noteq> []"
    and all: "\<forall>e \<in> set (e0 # es). authFailure e"
  shows "(case run (map ResponseError (e0 # es)) st of (outs, st') \<Rightarrow>
            refreshCalls outs = 1
          \<and> map fst outs =
              AwaitsRefresh ((the (config e0))\<lparr>retry := True\<rparr>) rt # map (\<lambda>_. Enqueued) es
          \<and> (\<forall>x \<in> set outs. snd x = [])
          \<and> isRefreshing st'
          \<and> localStorage st' = localStorage st
          \<and> failedQueue st' = failedQueue st @ map (the \<circ> config) es
          \<and> (\<forall>orig a.
                step (RefreshSettled orig (RefreshOk a)) st' =
                  (let ls' = setAccessToken (Some a) (localStorage st) in
                   (Retries (requestInterceptor ls' (setAuthorization (''Bearer '' @ a) orig)),
                    map (\<lambda>q. (q, Retries (requestInterceptor ls'
                                 (setAuthorization (bearer (getAccessToken ls')) q))))
                        (failedQueue st'),
                    st'\<lparr>localStorage := ls', isRefreshing := False, failedQueue := []\<rparr>)))
          \<and> (\<forall>orig err.
                step (RefreshSettled orig (RefreshFailed err)) st' =
                  (Rejects err,
                   map (\<lambda>q. (q, Rejects err)) (failedQueue st'),
                   st'\<lparr>localStorage := clearTokens (localStorage st), isRefreshing := False,
                       failedQueue := [], location_href := ''/auth/sign-in''\<rparr>)))
     \<and> (\<forall>s e. isRefreshing s \<and> authFailure e \<longrightarrow>
            onRejected e s = (Enqueued, [], s\<lparr>failedQueue := failedQueue s @ [the (config e)]\<rparr>))"
proof -
  from all have "authFailure e0" by simp
  then obtain c where c: "status e0 = Some 401" "config e0 = Some c" "\<not> retry c"
    "\<not> isAuthEndpoint c"
    by (rule authFailureE)
  let ?st1 = "st\<lparr>isRefreshing := True\<rparr>"
  let ?outs = "(AwaitsRefresh (c\<lparr>retry := True\<rparr>) rt, []) # map (\<lambda>_. (Enqueued, [])) es"
  let ?st' = "?st1\<lparr>failedQueue := failedQueue ?st1 @ map (the \<circ> config) es\<rparr>"
  have first: "onRejected e0 st = (AwaitsRefresh (c\<lparr>retry := True\<rparr>) rt, [], ?st1)"
    using onRejected_start[OF c idle tok] .
  have rest: "run (map ResponseError es) ?st1 = (map (\<lambda>_. (Enqueued, [])) es, ?st')"
    using all by (intro run_enqueue_all) simp_all
  have r: "run (map ResponseError (e0 # es)) st = (?outs, ?st')"
    using first rest by simp
  have filt: "filter isRefreshCall (map (\<lambda>_. Enqueued) es) = []"
    by (induction es) simp_all
  have cnt: "refreshCalls ?outs = 1"
    by (simp add: refreshCalls_def comp_def filt)
  have inv: "onRejected e s = (Enqueued, [], s\<lparr>failedQueue := failedQueue s @ [the (config e)]\<rparr>)"
    if "isRefreshing s" "authFailure e" for s e
  proof -
    from that(2) obtain d where d: "status e = Some 401" "config e = Some d" "\<not> retry d"
      "\<not> isAuthEndpoint d"
      by (rule authFailureE)
    show ?thesis using onRejected_enqueue[OF d that(1)] d(2) by simp
  qed
  show ?thesis
    unfolding r using cnt inv
    by (simp add: c(2) comp_def onRefreshSettled_ok onRefreshSettled_failed Let_def)
qed

theorem single_refresh_in_flight_witness:
  "\<not> isRefreshing (session (tokens ''tok1'' ''r1''))
   \<and> getRefreshToken (localStorage (session (tokens ''tok1'' ''r1''))) = Some ''r1''
   \<and> ''r1'' \<noteq> []
   \<and> authFailure (unauthorized callA) \<and> authFailure (unauthorized callB)
   \<and> refreshCalls (fst (run [ResponseError (unauthorized callA), ResponseError (unauthorized callB)]
                            (session (tokens ''tok1'' ''r1'')))) = 1
   \<and> map fst (fst (run [ResponseError (unauthorized callA), ResponseError (unauthorized callB)]
                       (session (tokens ''tok1'' ''r1''))))
       = [AwaitsRefresh (callA\<lparr>retry := True\<rparr>) ''r1'', Enqueued]
   \<and> failedQueue (snd (run [ResponseError (unauthorized callA), ResponseError (unauthorized callB)]
                           (session (tokens ''tok1'' ''r1'')))) = [callB]
   \<and> isRefreshing (snd (run [ResponseError (unauthorized callA), ResponseError (unauthorized callB)]
                            (session (tokens ''tok1'' ''r1''))))
   \<and> fst (snd (step (RefreshSettled (callA\<lparr>retry := True\<rparr>) (RefreshOk ''tok2''))
         (snd (run [ResponseError (unauthorized callA), ResponseError (unauthorized callB)]
                   (session (tokens ''tok1'' ''r1''))))))
       = [(callB, Retries callB2)]
   \<and> fst (snd (step (RefreshSettled (callA\<lparr>retry := True\<rparr>) (RefreshFailed (Error ''Network Error'')))
         (snd (run [ResponseError (unauthorized callA), ResponseError (unauthorized callB)]
                   (session (tokens ''tok1'' ''r1''))))))
       = [(callB, Rejects (Error ''Network Error''))]"
proof -
  have h1: "\<not> isRefreshing (session (tokens ''tok1'' ''r1''))"
    by (simp add: session_def)
  have h2: "getRefreshToken (localStorage (session (tokens ''tok1'' ''r1''))) = Some ''r1''"
    by (simp add: store_defs scenario_defs)
  have h3: "''r1'' \<noteq> []" by simp
  have a: "authFailure (unauthorized callA)"
    by (simp add: authFailure_def isAuthEndpoint_def scenario_defs)
  have b: "authFailure (unauthorized callB)"
    by (simp add: authFailure_def isAuthEndpoint_def scenario_defs)
  have h4: "\<forall>e \<in> set (unauthorized callA # [unauthorized callB]). authFailure e"
    using a b by simp
  have ca: "the (config (unauthorized callA)) = callA" by (simp add: unauthorized_def)
  have cb: "the (config (unauthorized callB)) = callB" by (simp add: unauthorized_def)
  have q: "failedQueue (session (tokens ''tok1'' ''r1'')) = []" by (simp add: session_def)
  have ls: "localStorage (session (tokens ''tok1'' ''r1'')) = tokens ''tok1'' ''r1''"
    by (simp add: session_def)
  have b2: "requestInterceptor (setAccessToken (Some ''tok2'') (tokens ''tok1'' ''r1''))
              (setAuthorization
                 (bearer (getAccessToken (setAccessToken (Some ''tok2'') (tokens ''tok1'' ''r1''))))
                 callB) = callB2"
    by (simp add: store_defs scenario_defs requestInterceptor_def setAuthorization_def bearer_def)
  obtain outs st' where
    r: "run [ResponseError (unauthorized callA), ResponseError (unauthorized callB)]
            (session (tokens ''tok1'' ''r1'')) = (outs, st')"
    by (rule prod.exhaust)
  show ?thesis
    using h1 h2 h3 a b single_refresh_in_flight [OF h1 h2 h3 h4]
    by (simp add: r ca cb q ls b2 Let_def del: run.simps step.simps)
qed

text \<open>
  C1 as stated fails when no refresh credential is stored: on an empty store, with no
  refresh in flight, the 401s of \<open>callA\<close> and \<open>callB\<close> issue no refresh call at all, and
  the second call is rejected like the first, not queued.
\<close>

theorem no_credential_no_refresh_call:
  "\<not> isRefreshing (session emptyStorage)
   \<and> authFailure (unauthorized callA) \<and> authFailure (unauthorized callB)
   \<and> refreshCalls (fst (run [ResponseError (unauthorized callA), ResponseError (unauthorized callB)]
                            (session emptyStorage))) = 0
   \<and> map fst (fst (run [ResponseError (unauthorized callA), ResponseError (unauthorized callB)]
                       (session emptyStorage)))
       = [Rejects (AxiosError ((unauthorized callA)\<lparr>config := Some (callA\<lparr>retry := True\<rparr>)\<rparr>)),
          Rejects (AxiosError ((unauthorized callB)\<lparr>config := Some (callB\<lparr>retry := True\<rparr>)\<rparr>))]
   \<and> failedQueue (snd (run [ResponseError (unauthorized callA), ResponseError (unauthorized callB)]
                           (session emptyStorage))) = []"
  by (simp add: store_defs scenario_defs client_defs refreshCalls_def)

subsection \<open>When the refresh settles\<close>

text \<open>
  C6. The run that resumes after the refresh call, on success and on failure, leaves
  \<open>failedQueue\<close> empty and the flag false, and settles the queued calls in queue order:
  on success each is sent again, on failure each is rejected with the refresh error. A
  step makes the queue longer only when \<open>isRefreshing\<close> is true before and after it, and
  then by appending one request at the end, so queue order is the order of arrival.
\<close>

theorem queue_drained_in_order:
  "(case onRefreshSettled orig (RefreshOk a) st of (out, settled, st') \<Rightarrow>
      failedQueue st' = [] \<and> \<not> isRefreshing st' \<and>
      settled = map (\<lambda>q. (q, Retries (requestInterceptor (localStorage st')
                 (setAuthorization (bearer (getAccessToken (localStorage st'))) q))))
               (failedQueue st))
   \<and> (case onRefreshSettled orig (RefreshFailed e) st of (out, settled, st') \<Rightarrow>
      failedQueue st' = [] \<and> \<not> isRefreshing st' \<and>
      settled = map (\<lambda>q. (q, Rejects e)) (failedQueue st))
   \<and> (case step ev st of (out, settled, st') \<Rightarrow>
      length (failedQueue st) < length (failedQueue st') \<longrightarrow>
      isRefreshing st \<and> isRefreshing st' \<and> (\<exists>c. failedQueue st' = failedQueue st @ [c]))"
proof -
  have grow: "case step ev st of (out, settled, st') \<Rightarrow>
      length (failedQueue st) < length (failedQueue st') \<longrightarrow>
      isRefreshing st \<and> isRefreshing st' \<and> (\<exists>c. failedQueue st' = failedQueue st @ [c])"
  proof (cases ev)
    case (ResponseError error)
    then show ?thesis
      by (auto simp: onRejected_def Let_def processQueue_def split: if_splits option.splits)
  next
    case (RefreshSettled c r)
    then show ?thesis
      by (cases r) (auto simp: onRefreshSettled_ok onRefreshSettled_failed Let_def)
  qed
  show ?thesis
    using grow by (simp add: onRefreshSettled_ok onRefreshSettled_failed Let_def)
qed

theorem queue_drained_in_order_witness:
  "fst (snd (onRefreshSettled (callA\<lparr>retry := True\<rparr>) (RefreshFailed (Error ''Network Error''))
              refreshingState)) = [(callB, Rejects (Error ''Network Error''))]
   \<and> fst (snd (onRefreshSettled (callA\<lparr>retry := True\<rparr>) (RefreshOk ''tok2'') refreshingState))
       = [(callB, Retries callB2)]
   \<and> failedQueue (snd (snd (onRefreshSettled (callA\<lparr>retry := True\<rparr>) (RefreshOk ''tok2'')
                               refreshingState))) = []
   \<and> length (failedQueue refreshingState)
       < length (failedQueue (snd (snd (step (ResponseError (unauthorized callA)) refreshingState))))
   \<and> isRefreshing refreshingState
   \<and> failedQueue (snd (snd (step (ResponseError (unauthorized callA)) refreshingState)))
       = [callB, callA]"
  using queue_drained_in_order
          [where orig = "callA\<lparr>retry := True\<rparr>" and a = "''tok2''"
             and e = "Error ''Network Error''" and st = refreshingState
             and ev = "ResponseError (unauthorized callA)"]
  by (simp add: store_defs scenario_defs client_defs split: prod.splits)

text \<open>
  C5. After a refresh that succeeds with a non-empty access credential \<open>a\<close>, the store
  holds \<open>a\<close>; the original call is sent again, every queued call is sent again in queue
  order, and any call sent from the resulting store passes the request interceptor: each
  of these requests, when it has a headers object, carries the \<open>Authorization\<close> header
  \<open>Bearer a\<close>, whatever credential was stored or attached before.
\<close>

theorem refreshed_credential_attached:
  assumes "a \<noteq> []"
  shows "case onRefreshSettled orig (RefreshOk a) st of (out, settled, st') \<Rightarrow>
       getAccessToken (localStorage st') = Some a
     \<and> (\<exists>c. out = Retries c \<and>
            (headers orig \<noteq> None \<longrightarrow> authorization c = Some (''Bearer '' @ a)))
     \<and> map fst settled = failedQueue st
     \<and> (\<forall>(q, out') \<in> set settled. \<exists>c. out' = Retries c \<and>
            (headers q \<noteq> None \<longrightarrow> authorization c = Some (''Bearer '' @ a)))
     \<and> (\<forall>cfg. headers cfg \<noteq> None \<longrightarrow>
            authorization (requestInterceptor (localStorage st') cfg) = Some (''Bearer '' @ a))"
proof -
  let ?ls = "setAccessToken (Some a) (localStorage st)"
  have tok: "getAccessToken ?ls = Some a"
    using assms by (simp add: store_defs)
  have attach: "authorization (requestInterceptor ?ls cfg) = Some (''Bearer '' @ a)"
    if "headers cfg \<noteq> None" for cfg
    using that tok assms
    by (auto simp: requestInterceptor_def setAuthorization_def authorization_def bearer_def)
  have hd: "headers (setAuthorization v q) \<noteq> None" if "headers q \<noteq> None" for v q
    using that by (auto simp: setAuthorization_def)
  show ?thesis
    using tok attach hd by (auto simp: onRefreshSettled_ok Let_def comp_def)
qed

theorem refreshed_credential_attached_witness:
  "''tok2'' \<noteq> []
   \<and> getAccessToken (localStorage refreshingState) = Some ''tok1''
   \<and> getAccessToken (localStorage (snd (snd (onRefreshSettled (callA\<lparr>retry := True\<rparr>)
         (RefreshOk ''tok2'') refreshingState)))) = Some ''tok2''
   \<and> fst (onRefreshSettled (callA\<lparr>retry := True\<rparr>) (RefreshOk ''tok2'') refreshingState)
       = Retries (setAuthorization ''Bearer tok2'' (callA\<lparr>retry := True\<rparr>))
   \<and> authorization (setAuthorization ''Bearer tok2'' (callA\<lparr>retry := True\<rparr>)) = Some ''Bearer tok2''
   \<and> fst (snd (onRefreshSettled (callA\<lparr>retry := True\<rparr>) (RefreshOk ''tok2'') refreshingState))
       = [(callB, Retries callB2)]
   \<and> authorization callB2 = Some ''Bearer tok2''"
proof -
  have h: "''tok2'' \<noteq> []" by simp
  show ?thesis
    using h refreshed_credential_attached
              [OF h, where orig = "callA\<lparr>retry := True\<rparr>" and st = refreshingState]
    by (simp add: store_defs scenario_defs client_defs split: prod.splits)
qed

subsection \<open>No refresh credential\<close>

text \<open>
  C8, as the code has it. When a non-exempt call not yet retried receives a 401 while no
  refresh is in flight and no refresh credential is stored (absent, or empty), both
  credentials are cleared, every queued call is rejected with the error
  \<open>No refresh token available\<close>, the queue is empty, the browser is sent to
  \<open>/auth/sign-in\<close>, no refresh call is made and the flag is false again. The call itself
  is rejected with its own 401 error, whose request now carries the retry marker, not
  with the \<open>No refresh token available\<close> error.
\<close>

theorem no_refresh_credential_ends_session:
  assumes "authFailure error" and "\<not> isRefreshing st"
    and "\<not> truthy (getRefreshToken (localStorage st))"
  shows "case onRejected error st of (out, settled, st') \<Rightarrow>
       getAccessToken (localStorage st') = None \<and> getRefreshToken (localStorage st') = None
     \<and> settled = map (\<lambda>q. (q, Rejects (Error ''No refresh token available''))) (failedQueue st)
     \<and> failedQueue st' = []
     \<and> location_href st' = ''/auth/sign-in''
     \<and> out = Rejects (AxiosError (error\<lparr>config := Some ((the (config error))\<lparr>retry := True\<rparr>)\<rparr>))
     \<and> \<not> isRefreshCall out
     \<and> \<not> isRefreshing st'"
proof -
  from assms(1) obtain c where c: "status error = Some 401" "config error = Some c" "\<not> retry c"
    "\<not> isAuthEndpoint c"
    by (rule authFailureE)
  show ?thesis
    by (simp add: onRejected_no_token[OF c assms(2,3)] c(2) clearTokens_reads)
qed

theorem no_refresh_credential_ends_session_witness:
  "authFailure (unauthorized callA)
   \<and> \<not> isRefreshing (session (setAccessToken (Some ''tok1'') emptyStorage))
   \<and> \<not> truthy (getRefreshToken (localStorage (session (setAccessToken (Some ''tok1'') emptyStorage))))
   \<and> fst (onRejected (unauthorized callA) (session (setAccessToken (Some ''tok1'') emptyStorage)))
       = Rejects (AxiosError ((unauthorized callA)\<lparr>config := Some (callA\<lparr>retry := True\<rparr>)\<rparr>))
   \<and> getAccessToken (localStorage (snd (snd (onRejected (unauthorized callA)
         (session (setAccessToken (Some ''tok1'') emptyStorage)))))) = None
   \<and> location_href (snd (snd (onRejected (unauthorized callA)
         (session (setAccessToken (Some ''tok1'') emptyStorage))))) = ''/auth/sign-in''"
proof -
  have h1: "authFailure (unauthorized callA)"
    by (simp add: authFailure_def isAuthEndpoint_def scenario_defs)
  have h2: "\<not> isRefreshing (session (setAccessToken (Some ''tok1'') emptyStorage))"
    by (simp add: session_def)
  have h3: "\<not> truthy (getRefreshToken
              (localStorage (session (setAccessToken (Some ''tok1'') emptyStorage))))"
    by (simp add: store_defs scenario_defs)
  have c: "the (config (unauthorized callA)) = callA" by (simp add: unauthorized_def)
  show ?thesis
    using h1 h2 h3 no_refresh_credential_ends_session [OF h1 h2 h3]
    by (auto simp: c split: prod.splits)
qed

text \<open>
  C8 as stated fails on the error the call is rejected with: with an empty store, the
  401 of \<open>callA\<close> is rejected with that 401 error itself.
\<close>

theorem original_call_keeps_its_error:
  "fst (onRejected (unauthorized callA) (session emptyStorage))
     = Rejects (AxiosError ((unauthorized callA)\<lparr>config := Some (callA\<lparr>retry := True\<rparr>)\<rparr>))
   \<and> fst (onRejected (unauthorized callA) (session emptyStorage))
     \<noteq> Rejects (Error ''No refresh token available'')"
  by (simp add: store_defs scenario_defs client_defs)

subsection \<open>One retry per call\<close>

text \<open>
  The call that starts the refresh is marked before the refresh call is made, and a 401
  of a marked request is rejected as it is, with no refresh and no state change.
\<close>

lemma refresh_starter_is_marked:
  assumes "authFailure error" "\<not> isRefreshing st" "truthy (getRefreshToken (localStorage st))"
  shows "\<exists>c t. fst (onRejected error st) = AwaitsRefresh c t \<and> retry c
           \<and> retry (requestInterceptor ls (setAuthorization v c))"
proof -
  from assms(1) obtain c where c: "status error = Some 401" "config error = Some c" "\<not> retry c"
    "\<not> isAuthEndpoint c"
    by (rule authFailureE)
  from assms(3) obtain rt where rt: "getRefreshToken (localStorage st) = Some rt" "rt \<noteq> []"
    by (cases "getRefreshToken (localStorage st)") auto
  have "retry (requestInterceptor ls (setAuthorization v (c\<lparr>retry := True\<rparr>)))"
    by (auto simp: requestInterceptor_def setAuthorization_def Let_def split: option.splits)
  then show ?thesis
    by (simp add: onRejected_start[OF c assms(2) rt])
qed

text \<open>
  C2 at a queued call. \<open>callA\<close> and \<open>callB\<close> fail with 401; \<open>callA\<close> starts the refresh and
  \<open>callB\<close> is queued. The refresh stores \<open>tok2\<close> and both are sent again; \<open>callB2\<close> is
  \<open>callB\<close> as sent again, and it was never marked. When \<open>callB2\<close> fails with 401, the second
  failure of that call, the handler does not reject: it starts a second refresh, and after
  that refresh the call is sent a third time.
\<close>

theorem queued_call_retried_again:
  "fst (run [ResponseError (unauthorized callA),
             ResponseError (unauthorized callB),
             RefreshSettled (callA\<lparr>retry := True\<rparr>) (RefreshOk ''tok2''),
             ResponseError (unauthorized callB2),
             RefreshSettled (callB2\<lparr>retry := True\<rparr>) (RefreshOk ''tok3'')]
            (session (tokens ''tok1'' ''r1'')))
   = [(AwaitsRefresh (callA\<lparr>retry := True\<rparr>) ''r1'', []),
      (Enqueued, []),
      (Retries (setAuthorization ''Bearer tok2'' (callA\<lparr>retry := True\<rparr>)),
       [(callB, Retries callB2)]),
      (AwaitsRefresh (callB2\<lparr>retry := True\<rparr>) ''r1'', []),
      (Retries (setAuthorization ''Bearer tok3'' (callB2\<lparr>retry := True\<rparr>)), [])]
   \<and> retry callB2 = False"
  by (simp add: store_defs scenario_defs client_defs)

end
